theory Spec2Isabelle
  imports Main
begin

section \<open>Python values used by the API server\<close>

text \<open>
  The server is \<^verbatim>\<open>apps/api-server/app.py\<close>. Its strings are modelled as
  \<^typ>\<open>string\<close>: one \<^typ>\<open>char\<close> per code point below 256. That is what
  \<^verbatim>\<open>self.path\<close> holds, since \<^verbatim>\<open>http.server\<close> decodes the request line as
  ISO-8859-1; the values of environment variables are taken in the same range. Byte
  strings are character lists too, one \<^typ>\<open>char\<close> per byte.
\<close>

type_synonym bytes = string

text \<open>
  Python floats are kept abstract (type \<open>'f\<close>). The three float operations the
  server uses are parameters: subtraction, \<^verbatim>\<open>repr\<close> (used by \<^verbatim>\<open>json.dumps\<close> and by
  \<^verbatim>\<open>{duration}\<close> in an f-string) and the format \<^verbatim>\<open>{duration:.3f}\<close>.
\<close>

record 'f float_ops =
  fsub :: "'f \<Rightarrow> 'f \<Rightarrow> 'f"
  frepr :: "'f \<Rightarrow> string"
  ffmt3 :: "'f \<Rightarrow> string"

text \<open>\<^verbatim>\<open>s.startswith(p)\<close>\<close>

definition startswith :: "string \<Rightarrow> string \<Rightarrow> bool" where
  "startswith s p = (take (length p) s = p)"

text \<open>\<^verbatim>\<open>sep.join(xs)\<close>\<close>

fun join :: "string \<Rightarrow> string list \<Rightarrow> string" where
  "join sep [] = []"
| "join sep [x] = x"
| "join sep (x # y # ys) = x @ sep @ join sep (y # ys)"

text \<open>\<^verbatim>\<open>s.encode()\<close>: UTF-8, two bytes for a code point from 128 to 255.\<close>

definition encode_char :: "char \<Rightarrow> bytes" where
  "encode_char c =
     (let n = (of_char c :: nat)
      in if n < 128 then [c] else [char_of (192 + n div 64), char_of (128 + n mod 64)])"

definition encode :: "string \<Rightarrow> bytes" where
  "encode s = concat (map encode_char s)"

text \<open>\<^verbatim>\<open>str(n)\<close> of an integer, as \<^verbatim>\<open>{count}\<close> in an f-string renders it.\<close>

definition digit :: "nat \<Rightarrow> char" where
  "digit d = ''0123456789abcdef'' ! (d mod 16)"

function str_nat :: "nat \<Rightarrow> string" where
  "str_nat n = (if n < 10 then [digit n] else str_nat (n div 10) @ [digit (n mod 10)])"
  by pat_completeness auto
termination
  by (relation "measure id") auto

declare str_nat.simps [simp del]

definition str_int :: "int \<Rightarrow> string" where
  "str_int i = (if i < 0 then CHR ''-'' # str_nat (nat (- i)) else str_nat (nat i))"

subsection \<open>\<^verbatim>\<open>json.dumps\<close> of a dictionary of strings and floats\<close>

text \<open>
  With the default arguments: items in insertion order, separators \<^verbatim>\<open>", "\<close> and
  \<^verbatim>\<open>": "\<close>, and every character outside the printable ASCII range escaped.
\<close>

datatype 'f json = JStr string | JFloat 'f

definition json_escape_char :: "char \<Rightarrow> string" where
  "json_escape_char c =
     (if c = CHR 0x5C then [CHR 0x5C, CHR 0x5C]
      else if c = CHR 0x22 then [CHR 0x5C, CHR 0x22]
      else if c = CHR 0x08 then [CHR 0x5C, CHR ''b'']
      else if c = CHR 0x0C then [CHR 0x5C, CHR ''f'']
      else if c = CHR 0x0A then [CHR 0x5C, CHR ''n'']
      else if c = CHR 0x0D then [CHR 0x5C, CHR ''r'']
      else if c = CHR 0x09 then [CHR 0x5C, CHR ''t'']
      else (let n = (of_char c :: nat)
            in if n < 32 \<or> 126 < n
               then [CHR 0x5C, CHR ''u'', CHR ''0'', CHR ''0'', digit (n div 16), digit (n mod 16)]
               else [c]))"

definition json_str :: "string \<Rightarrow> string" where
  "json_str s = [CHR 0x22] @ concat (map json_escape_char s) @ [CHR 0x22]"

fun json_value :: "'f float_ops \<Rightarrow> 'f json \<Rightarrow> string" where
  "json_value fo (JStr s) = json_str s"
| "json_value fo (JFloat x) = frepr fo x"

definition json_dumps :: "'f float_ops \<Rightarrow> (string \<times> 'f json) list \<Rightarrow> string" where
  "json_dumps fo d =
     ''{'' @ join '', '' (map (\<lambda>(k, v). json_str k @ '': '' @ json_value fo v) d) @ ''}''"

subsection \<open>Dictionaries\<close>

text \<open>
  A Python dictionary keeps its items in insertion order, and \<^verbatim>\<open>items()\<close> walks them
  in that order, so a dictionary is a list of key-value pairs. Assigning to a key that is
  present replaces the value in place; assigning to a new key appends an item.
\<close>

definition dict_get :: "('k \<times> 'v) list \<Rightarrow> 'k \<Rightarrow> 'v \<Rightarrow> 'v" where
  "dict_get d k dflt = (case map_of d k of None \<Rightarrow> dflt | Some v \<Rightarrow> v)"

fun dict_setitem :: "('k \<times> 'v) list \<Rightarrow> 'k \<Rightarrow> 'v \<Rightarrow> ('k \<times> 'v) list" where
  "dict_setitem [] k v = [(k, v)]"
| "dict_setitem ((k', v') # d) k v =
     (if k' = k then (k', v) # d else (k', v') # dict_setitem d k v)"

definition keys :: "('k \<times> 'v) list \<Rightarrow> 'k list" where
  "keys d = map fst d"

text \<open>\<^verbatim>\<open>os.getenv(name, default)\<close> over the process environment.\<close>

type_synonym environ = "string \<rightharpoonup> string"

definition getenv :: "environ \<Rightarrow> string \<Rightarrow> string \<Rightarrow> string" where
  "getenv env name dflt = (case env name of None \<Rightarrow> dflt | Some v \<Rightarrow> v)"

section \<open>The state of the server\<close>

text \<open>
  What the handler has sent on its connection: the status of \<^verbatim>\<open>send_response\<close>, the
  headers of \<^verbatim>\<open>send_header\<close> in order, whether \<^verbatim>\<open>end_headers\<close> has run, and the bytes
  written to \<^verbatim>\<open>wfile\<close>. (The \<^verbatim>\<open>Server\<close> and \<^verbatim>\<open>Date\<close> headers that the library adds by
  itself are left out.)
\<close>

record response =
  status :: "nat option"
  headers :: "(string \<times> string) list"
  headers_ended :: bool
  wfile :: bytes

definition new_response :: response where
  "new_response = \<lparr>status = None, headers = [], headers_ended = False, wfile = []\<rparr>"

text \<open>
  The module's globals \<^verbatim>\<open>request_count\<close> and \<^verbatim>\<open>request_duration\<close>, the messages given
  to \<^verbatim>\<open>logger.info\<close>, and the response of the request being handled.
\<close>

record 'f state =
  request_count :: "(string \<times> int) list"
  request_duration :: "(string \<times> 'f) list"
  logger :: "string list"
  resp :: response

definition initial_state :: "'f state" where
  "initial_state = \<lparr>request_count = [], request_duration = [], logger = [], resp = new_response\<rparr>"

text \<open>
  A GET request: \<^verbatim>\<open>self.path\<close> and the values that the calls of \<^verbatim>\<open>time.time()\<close> return
  while it is handled: at the start of \<^verbatim>\<open>do_GET\<close>, when the echo branch measures its
  duration, and when the echo branch builds its reply.
\<close>

record 'f request =
  path :: string
  time_start :: 'f
  time_measured :: 'f
  time_stamp :: 'f

section \<open>The handler\<close>

text \<open>
  \<^verbatim>\<open>log_message\<close> is overridden to do nothing; the library's \<^verbatim>\<open>send_response\<close> calls it
  (through \<^verbatim>\<open>log_request\<close>) after it has recorded the status.
\<close>

definition log_message :: "'f state \<Rightarrow> 'f state" where
  "log_message s = s"

definition send_response :: "nat \<Rightarrow> 'f state \<Rightarrow> 'f state" where
  "send_response code s = log_message (s\<lparr>resp := (resp s)\<lparr>status := Some code\<rparr>\<rparr>)"

definition send_header :: "string \<Rightarrow> string \<Rightarrow> 'f state \<Rightarrow> 'f state" where
  "send_header k v s = s\<lparr>resp := (resp s)\<lparr>headers := headers (resp s) @ [(k, v)]\<rparr>\<rparr>"

definition end_headers :: "'f state \<Rightarrow> 'f state" where
  "end_headers s = s\<lparr>resp := (resp s)\<lparr>headers_ended := True\<rparr>\<rparr>"

definition wfile_write :: "bytes \<Rightarrow> 'f state \<Rightarrow> 'f state" where
  "wfile_write b s = s\<lparr>resp := (resp s)\<lparr>wfile := wfile (resp s) @ b\<rparr>\<rparr>"

definition logger_info :: "string \<Rightarrow> 'f state \<Rightarrow> 'f state" where
  "logger_info msg s = s\<lparr>logger := logger s @ [msg]\<rparr>"

text \<open>\<^verbatim>\<open>_generate_metrics\<close>: the list \<^verbatim>\<open>metrics\<close> grows by \<^verbatim>\<open>append\<close> in two loops.\<close>

definition generate_metrics :: "'f float_ops \<Rightarrow> 'f state \<Rightarrow> string" where
  "generate_metrics fo s =
     (let metrics = [''# HELP api_requests_total Total number of requests'',
                     ''# TYPE api_requests_total counter''];
          metrics = foldl (\<lambda>m (endpoint, count).
                       m @ [''api_requests_total{endpoint=\"'' @ endpoint @ ''\"} '' @ str_int count])
                     metrics (request_count s);
          metrics = metrics @ [''# HELP api_request_duration_seconds Request duration''];
          metrics = metrics @ [''# TYPE api_request_duration_seconds gauge''];
          metrics = foldl (\<lambda>m (endpoint, duration).
                       m @ [''api_request_duration_seconds{endpoint=\"'' @ endpoint @ ''\"} ''
                            @ frepr fo duration])
                     metrics (request_duration s)
      in join [CHR 0x0A] metrics @ [CHR 0x0A])"

text \<open>
  \<^verbatim>\<open>do_GET\<close>, as the list of the statements that the branch taken runs, each a state
  transformer. Local variables are inlined where they are used.
\<close>

definition do_GET_stmts ::
  "'f float_ops \<Rightarrow> environ \<Rightarrow> 'f request \<Rightarrow> ('f state \<Rightarrow> 'f state) list" where
  "do_GET_stmts fo env rq =
     (let start_time = time_start rq; p = path rq
      in if p = ''/health'' then
           [send_response 200,
            send_header ''Content-Type'' ''application/json'',
            end_headers,
            wfile_write (encode (json_dumps fo
              [(''status'', JStr ''healthy''),
               (''version'', JStr (getenv env ''APP_VERSION'' ''1.0.0''))])),
            logger_info ''Health check passed'']
         else if p = ''/metrics'' then
           [send_response 200,
            send_header ''Content-Type'' ''text/plain'',
            end_headers,
            (\<lambda>s. wfile_write (encode (generate_metrics fo s)) s)]
         else if startswith p ''/api/echo'' then
           (let duration = fsub fo (time_measured rq) start_time
            in [(\<lambda>s. s\<lparr>request_count :=
                        dict_setitem (request_count s) p (dict_get (request_count s) p 0 + 1)\<rparr>),
                (\<lambda>s. s\<lparr>request_duration := dict_setitem (request_duration s) p duration\<rparr>),
                send_response 200,
                send_header ''Content-Type'' ''application/json'',
                end_headers,
                wfile_write (encode (json_dumps fo
                  [(''message'', JStr ''pong''),
                   (''hostname'', JStr (getenv env ''HOSTNAME'' ''unknown'')),
                   (''timestamp'', JFloat (time_stamp rq))])),
                logger_info (''Request: '' @ p @ '' - Duration: '' @ ffmt3 fo duration @ ''s'')])
         else
           [send_response 404,
            send_header ''Content-Type'' ''application/json'',
            end_headers,
            wfile_write (encode (json_dumps fo [(''error'', JStr ''Not found'')]))])"

text \<open>Running statements in order, and the states passed through on the way.\<close>

fun run :: "('s \<Rightarrow> 's) list \<Rightarrow> 's \<Rightarrow> 's" where
  "run [] s = s"
| "run (f # fs) s = run fs (f s)"

fun run_trace :: "('s \<Rightarrow> 's) list \<Rightarrow> 's \<Rightarrow> 's list" where
  "run_trace [] s = [s]"
| "run_trace (f # fs) s = s # run_trace fs (f s)"

definition do_GET ::
  "'f float_ops \<Rightarrow> environ \<Rightarrow> 'f request \<Rightarrow> 'f state \<Rightarrow> 'f state" where
  "do_GET fo env rq s = run (do_GET_stmts fo env rq) s"

text \<open>
  The server handles one request at a time (\<^verbatim>\<open>HTTPServer.serve_forever\<close>), each with a
  handler of its own and so a response of its own; the globals and the log carry over.
\<close>

definition handle ::
  "'f float_ops \<Rightarrow> environ \<Rightarrow> 'f request \<Rightarrow> 'f state \<Rightarrow> 'f state" where
  "handle fo env rq s = do_GET fo env rq (s\<lparr>resp := new_response\<rparr>)"

fun serve ::
  "'f float_ops \<Rightarrow> environ \<Rightarrow> 'f request list \<Rightarrow> 'f state \<Rightarrow> 'f state" where
  "serve fo env [] s = s"
| "serve fo env (rq # rqs) s = serve fo env rqs (handle fo env rq s)"

definition do_GET_trace ::
  "'f float_ops \<Rightarrow> environ \<Rightarrow> 'f request \<Rightarrow> 'f state \<Rightarrow> 'f state list" where
  "do_GET_trace fo env rq s = run_trace (do_GET_stmts fo env rq) s"

text \<open>The metrics store: the two global dictionaries.\<close>

definition store :: "'f state \<Rightarrow> (string \<times> int) list \<times> (string \<times> 'f) list" where
  "store s = (request_count s, request_duration s)"

section \<open>Notions used in the statements\<close>

text \<open>The metric lines as the specification writes them.\<close>

definition spec_count_line :: "string \<times> int \<Rightarrow> string" where
  "spec_count_line = (\<lambda>(p, c). ''api_requests_total{endpoint=\"'' @ p @ ''\"} '' @ str_int c)"

definition spec_duration_line :: "'f float_ops \<Rightarrow> string \<times> 'f \<Rightarrow> string" where
  "spec_duration_line fo =
     (\<lambda>(p, d). ''api_request_duration_seconds{endpoint=\"'' @ p @ ''\"} '' @ frepr fo d)"



text \<open>The invariant of the store: the same keys in the same order, and positive counts.\<close>

definition store_inv :: "'f state \<Rightarrow> bool" where
  "store_inv s =
     (keys (request_count s) = keys (request_duration s)
      \<and> (\<forall>(k, c) \<in> set (request_count s). 1 \<le> c))"

subsection \<open>Concrete inputs\<close>

text \<open>
  For concrete runs, times are whole milliseconds: subtraction is integer subtraction and
  both renderings print the integer.
\<close>

definition ms_ops :: "int float_ops" where
  "ms_ops = \<lparr>fsub = (-), frepr = str_int, ffmt3 = str_int\<rparr>"

definition echo_rq :: "int request" where
  "echo_rq = \<lparr>path = ''/api/echo'', time_start = 100, time_measured = 103, time_stamp = 105\<rparr>"

definition echo_query_rq :: "int request" where
  "echo_query_rq =
     \<lparr>path = ''/api/echo?x=1'', time_start = 500, time_measured = 507, time_stamp = 509\<rparr>"

definition health_rq :: "int request" where
  "health_rq = \<lparr>path = ''/health'', time_start = 200, time_measured = 0, time_stamp = 0\<rparr>"

definition metrics_rq :: "int request" where
  "metrics_rq = \<lparr>path = ''/metrics'', time_start = 300, time_measured = 0, time_stamp = 0\<rparr>"

definition other_rq :: "int request" where
  "other_rq = \<lparr>path = ''/foo/bar'', time_start = 400, time_measured = 0, time_stamp = 0\<rparr>"

section \<open>Basic facts\<close>

lemmas handler_defs =
  send_response_def send_header_def end_headers_def wfile_write_def logger_info_def
  log_message_def

lemmas eval_defs =
  ms_ops_def echo_rq_def health_rq_def metrics_rq_def other_rq_def echo_query_rq_def
  initial_state_def new_response_def startswith_def handle_def do_GET_def do_GET_stmts_def
  Let_def handler_defs generate_metrics_def json_dumps_def json_str_def json_escape_char_def
  encode_def encode_char_def getenv_def dict_get_def str_int_def str_nat.simps digit_def
  keys_def store_def do_GET_trace_def

subsection \<open>Dictionaries\<close>

lemma map_of_dict_setitem: "map_of (dict_setitem d k v) = (map_of d)(k \<mapsto> v)"
  by (induction d) (auto simp: fun_eq_iff)

lemma keys_dict_setitem:
  "keys (dict_setitem d k v) = (if k \<in> set (keys d) then keys d else keys d @ [k])"
  by (induction d) (force simp: keys_def)+

lemma set_dict_setitem: "set (dict_setitem d k v) \<subseteq> insert (k, v) (set d)"
  by (induction d) (auto split: if_splits)

lemma dict_setitem_absent: "k \<notin> set (keys d) \<Longrightarrow> dict_setitem d k v = d @ [(k, v)]"
  by (induction d) (auto simp: keys_def)

lemma dict_get_absent: "k \<notin> set (keys d) \<Longrightarrow> dict_get d k dflt = dflt"
  by (simp add: dict_get_def keys_def map_of_eq_None_iff[THEN iffD2])

lemma foldl_append_items:
  "foldl (\<lambda>m (k, v). m @ [g k v]) init xs = init @ map (\<lambda>(k, v). g k v) xs"
  by (induction xs arbitrary: init) auto

subsection \<open>Strings\<close>

lemma startswith_echo_distinct:
  "startswith p ''/api/echo'' \<Longrightarrow> p \<noteq> ''/health'' \<and> p \<noteq> ''/metrics''"
  by (auto simp: startswith_def)

lemma encode_ascii: "\<forall>c \<in> set s. (of_char c :: nat) < 128 \<Longrightarrow> encode s = s"
  by (induction s) (auto simp: encode_def encode_char_def)

lemma body_404:
  "encode (json_dumps fo [(''error'', JStr ''Not found'')]) = ''{\"error\": \"Not found\"}''"
  by (simp add: json_dumps_def json_str_def json_escape_char_def encode_def encode_char_def)

subsection \<open>Traces\<close>

lemma length_run_trace: "length (run_trace fs s) = Suc (length fs)"
  by (induction fs arbitrary: s) auto



lemma run_trace_last: "run_trace fs s ! length fs = run fs s"
  by (induction fs arbitrary: s) auto

lemma do_GET_trace_last:
  "do_GET_trace fo env rq s ! length (do_GET_stmts fo env rq) = do_GET fo env rq s"
  by (simp add: do_GET_trace_def do_GET_def run_trace_last)

subsection \<open>What one request does\<close>

lemma resp_handle:
  "resp (handle fo env rq s) =
    (if path rq = ''/health'' then
       \<lparr>status = Some 200, headers = [(''Content-Type'', ''application/json'')],
        headers_ended = True,
        wfile = encode (json_dumps fo [(''status'', JStr ''healthy''),
                  (''version'', JStr (getenv env ''APP_VERSION'' ''1.0.0''))])\<rparr>
     else if path rq = ''/metrics'' then
       \<lparr>status = Some 200, headers = [(''Content-Type'', ''text/plain'')],
        headers_ended = True, wfile = encode (generate_metrics fo s)\<rparr>
     else if startswith (path rq) ''/api/echo'' then
       \<lparr>status = Some 200, headers = [(''Content-Type'', ''application/json'')],
        headers_ended = True,
        wfile = encode (json_dumps fo [(''message'', JStr ''pong''),
                  (''hostname'', JStr (getenv env ''HOSTNAME'' ''unknown'')),
                  (''timestamp'', JFloat (time_stamp rq))])\<rparr>
     else
       \<lparr>status = Some 404, headers = [(''Content-Type'', ''application/json'')],
        headers_ended = True, wfile = ''{\"error\": \"Not found\"}''\<rparr>)"
  by (simp add: handle_def do_GET_def do_GET_stmts_def Let_def handler_defs new_response_def
      body_404 generate_metrics_def)

lemma count_handle:
  "request_count (handle fo env rq s) =
    (if startswith (path rq) ''/api/echo''
     then dict_setitem (request_count s) (path rq) (dict_get (request_count s) (path rq) 0 + 1)
     else request_count s)"
  by (auto simp add: handle_def do_GET_def do_GET_stmts_def Let_def handler_defs
      dest: startswith_echo_distinct)

lemma duration_handle:
  "request_duration (handle fo env rq s) =
    (if startswith (path rq) ''/api/echo''
     then dict_setitem (request_duration s) (path rq)
            (fsub fo (time_measured rq) (time_start rq))
     else request_duration s)"
  by (auto simp add: handle_def do_GET_def do_GET_stmts_def Let_def handler_defs
      dest: startswith_echo_distinct)

section \<open>The request router\<close>

text \<open>
  C1. For every GET request the response follows the routing table: path \<^verbatim>\<open>/health\<close>
  (exact) gives status 200, content type \<^verbatim>\<open>application/json\<close> and the object with
  \<^verbatim>\<open>status\<close> "healthy" and \<^verbatim>\<open>version\<close> the value of \<^verbatim>\<open>APP_VERSION\<close> or "1.0.0"; path
  \<^verbatim>\<open>/metrics\<close> (exact) gives 200, \<^verbatim>\<open>text/plain\<close> and the exporter's output; every path
  with the prefix \<^verbatim>\<open>/api/echo\<close> gives 200, \<^verbatim>\<open>application/json\<close> and the object with
  \<^verbatim>\<open>message\<close> "pong", \<^verbatim>\<open>hostname\<close> the value of \<^verbatim>\<open>HOSTNAME\<close> or "unknown", and the
  \<^verbatim>\<open>timestamp\<close>; every other path gives 404, \<^verbatim>\<open>application/json\<close> and exactly
  \<^verbatim>\<open>{"error": "Not found"}\<close>.
\<close>

theorem routing_table:
  "(path rq = ''/health'' \<longrightarrow>
      resp (handle fo env rq s) =
        \<lparr>status = Some 200, headers = [(''Content-Type'', ''application/json'')],
         headers_ended = True,
         wfile = encode (json_dumps fo [(''status'', JStr ''healthy''),
                   (''version'',
                    JStr (case env ''APP_VERSION'' of None \<Rightarrow> ''1.0.0'' | Some v \<Rightarrow> v))])\<rparr>)
 \<and> (path rq = ''/metrics'' \<longrightarrow>
      resp (handle fo env rq s) =
        \<lparr>status = Some 200, headers = [(''Content-Type'', ''text/plain'')],
         headers_ended = True, wfile = encode (generate_metrics fo s)\<rparr>)
 \<and> (startswith (path rq) ''/api/echo'' \<longrightarrow>
      resp (handle fo env rq s) =
        \<lparr>status = Some 200, headers = [(''Content-Type'', ''application/json'')],
         headers_ended = True,
         wfile = encode (json_dumps fo [(''message'', JStr ''pong''),
                   (''hostname'',
                    JStr (case env ''HOSTNAME'' of None \<Rightarrow> ''unknown'' | Some h \<Rightarrow> h)),
                   (''timestamp'', JFloat (time_stamp rq))])\<rparr>)
 \<and> (path rq \<noteq> ''/health'' \<and> path rq \<noteq> ''/metrics'' \<and> \<not> startswith (path rq) ''/api/echo''
      \<longrightarrow>
      resp (handle fo env rq s) =
        \<lparr>status = Some 404, headers = [(''Content-Type'', ''application/json'')],
         headers_ended = True, wfile = ''{\"error\": \"Not found\"}''\<rparr>)"
  using startswith_echo_distinct[of "path rq"] by (auto simp: resp_handle getenv_def)

theorem routing_table_witness:
  "resp (handle ms_ops Map.empty health_rq initial_state) =
     \<lparr>status = Some 200, headers = [(''Content-Type'', ''application/json'')],
      headers_ended = True, wfile = ''{\"status\": \"healthy\", \"version\": \"1.0.0\"}''\<rparr>
 \<and> resp (handle ms_ops Map.empty metrics_rq (handle ms_ops Map.empty echo_rq initial_state)) =
     \<lparr>status = Some 200, headers = [(''Content-Type'', ''text/plain'')],
      headers_ended = True,
      wfile = ''# HELP api_requests_total Total number of requests'' @ [CHR 0x0A]
            @ ''# TYPE api_requests_total counter'' @ [CHR 0x0A]
            @ ''api_requests_total{endpoint=\"/api/echo\"} 1'' @ [CHR 0x0A]
            @ ''# HELP api_request_duration_seconds Request duration'' @ [CHR 0x0A]
            @ ''# TYPE api_request_duration_seconds gauge'' @ [CHR 0x0A]
            @ ''api_request_duration_seconds{endpoint=\"/api/echo\"} 3'' @ [CHR 0x0A]\<rparr>
 \<and> resp (handle ms_ops [''HOSTNAME'' \<mapsto> ''pod-1''] echo_query_rq initial_state) =
     \<lparr>status = Some 200, headers = [(''Content-Type'', ''application/json'')],
      headers_ended = True,
      wfile = ''{\"message\": \"pong\", \"hostname\": \"pod-1\", \"timestamp\": 509}''\<rparr>
 \<and> resp (handle ms_ops Map.empty other_rq initial_state) =
     \<lparr>status = Some 404, headers = [(''Content-Type'', ''application/json'')],
      headers_ended = True, wfile = ''{\"error\": \"Not found\"}''\<rparr>"
  using routing_table[of health_rq ms_ops Map.empty initial_state]
        routing_table[of metrics_rq ms_ops Map.empty "handle ms_ops Map.empty echo_rq initial_state"]
        routing_table[of echo_query_rq ms_ops "[''HOSTNAME'' \<mapsto> ''pod-1'']" initial_state]
        routing_table[of other_rq ms_ops Map.empty initial_state]
  by (simp add: eval_defs)

text \<open>
  C7. For every request to \<^verbatim>\<open>/health\<close>, the version in the body is "1.0.0" when
  \<^verbatim>\<open>APP_VERSION\<close> is unset, and the value of \<^verbatim>\<open>APP_VERSION\<close> when it is set.
\<close>

theorem health_version:
  assumes "path rq = ''/health''"
  shows "(env ''APP_VERSION'' = None \<longrightarrow>
            wfile (resp (handle fo env rq s)) = ''{\"status\": \"healthy\", \"version\": \"1.0.0\"}'')
       \<and> (\<forall>v. env ''APP_VERSION'' = Some v \<longrightarrow>
            wfile (resp (handle fo env rq s)) =
              encode (json_dumps fo [(''status'', JStr ''healthy''), (''version'', JStr v)]))"
  using assms
  by (simp add: resp_handle getenv_def json_dumps_def json_str_def json_escape_char_def
      encode_def encode_char_def)

theorem health_version_witness:
  "path health_rq = ''/health''
 \<and> wfile (resp (handle ms_ops Map.empty health_rq initial_state))
     = ''{\"status\": \"healthy\", \"version\": \"1.0.0\"}''
 \<and> wfile (resp (handle ms_ops [''APP_VERSION'' \<mapsto> ''2.3.4''] health_rq initial_state))
     = ''{\"status\": \"healthy\", \"version\": \"2.3.4\"}''"
  using health_version[of health_rq Map.empty ms_ops initial_state]
        health_version[of health_rq "[''APP_VERSION'' \<mapsto> ''2.3.4'']" ms_ops initial_state]
  by (simp add: eval_defs)

section \<open>The metrics store under one request\<close>

text \<open>
  C2. For every request whose path starts with \<^verbatim>\<open>/api/echo\<close>, handling it adds exactly 1
  to the count of that path (an absent key counting as 0) and overwrites the last duration
  of that path with the time elapsed since the start of the request; no other key changes.
\<close>

theorem echo_updates_store:
  assumes "startswith (path rq) ''/api/echo''"
  shows "map_of (request_count (handle fo env rq s)) =
           (map_of (request_count s))
             (path rq \<mapsto> dict_get (request_count s) (path rq) 0 + 1)
       \<and> map_of (request_duration (handle fo env rq s)) =
           (map_of (request_duration s))
             (path rq \<mapsto> fsub fo (time_measured rq) (time_start rq))"
  using assms by (simp add: count_handle duration_handle map_of_dict_setitem)

theorem echo_updates_store_witness:
  "startswith (path echo_rq) ''/api/echo''
 \<and> map_of (request_count
       (handle ms_ops Map.empty echo_rq (handle ms_ops Map.empty echo_rq initial_state)))
       ''/api/echo'' = Some 2
 \<and> map_of (request_duration
       (handle ms_ops Map.empty echo_rq (handle ms_ops Map.empty echo_query_rq initial_state)))
       ''/api/echo'' = Some 3"
  using echo_updates_store[of echo_rq ms_ops Map.empty
          "handle ms_ops Map.empty echo_rq initial_state"]
        echo_updates_store[of echo_rq ms_ops Map.empty
          "handle ms_ops Map.empty echo_query_rq initial_state"]
  by (simp add: eval_defs)

text \<open>
  C6. For every request whose path is \<^verbatim>\<open>/health\<close> or \<^verbatim>\<open>/metrics\<close>, or does not start with
  \<^verbatim>\<open>/api/echo\<close>, handling it leaves both dictionaries of the store as they were.
\<close>

theorem non_echo_frame:
  assumes "path rq = ''/health'' \<or> path rq = ''/metrics'' \<or> \<not> startswith (path rq) ''/api/echo''"
  shows "request_count (handle fo env rq s) = request_count s
       \<and> request_duration (handle fo env rq s) = request_duration s"
  using assms by (auto simp add: count_handle duration_handle dest: startswith_echo_distinct)

theorem non_echo_frame_witness:
  "path health_rq = ''/health'' \<and> \<not> startswith (path other_rq) ''/api/echo''
 \<and> request_count
       (handle ms_ops Map.empty health_rq (handle ms_ops Map.empty echo_rq initial_state))
      = [(''/api/echo'', 1)]
 \<and> request_duration
       (handle ms_ops Map.empty other_rq (handle ms_ops Map.empty echo_rq initial_state))
      = [(''/api/echo'', 3)]"
  using non_echo_frame[of health_rq ms_ops Map.empty
          "handle ms_ops Map.empty echo_rq initial_state"]
        non_echo_frame[of other_rq ms_ops Map.empty
          "handle ms_ops Map.empty echo_rq initial_state"]
  by (simp add: eval_defs)

section \<open>The metrics exporter\<close>

text \<open>
  C4. The exporter's output is a function of the store: the HELP and TYPE lines of the
  counter, one line \<^verbatim>\<open>api_requests_total{endpoint="<path>"} <count>\<close> for each entry of the
  counts, the HELP and TYPE lines of the gauge, one line
  \<^verbatim>\<open>api_request_duration_seconds{endpoint="<path>"} <duration>\<close> for each entry of the last
  durations, in this order, joined by newlines and closed by a newline.
\<close>

theorem exporter_format:
  "generate_metrics fo s =
     join [CHR 0x0A]
       ([''# HELP api_requests_total Total number of requests'',
         ''# TYPE api_requests_total counter'']
        @ map spec_count_line (request_count s)
        @ [''# HELP api_request_duration_seconds Request duration'',
           ''# TYPE api_request_duration_seconds gauge'']
        @ map (spec_duration_line fo) (request_duration s))
     @ [CHR 0x0A]"
  unfolding generate_metrics_def Let_def foldl_append_items spec_count_line_def
    spec_duration_line_def
  by simp

theorem exporter_format_witness:
  "generate_metrics ms_ops
     (serve ms_ops Map.empty [echo_rq, echo_query_rq, echo_rq] initial_state) =
     ''# HELP api_requests_total Total number of requests'' @ [CHR 0x0A]
   @ ''# TYPE api_requests_total counter'' @ [CHR 0x0A]
   @ ''api_requests_total{endpoint=\"/api/echo\"} 2'' @ [CHR 0x0A]
   @ ''api_requests_total{endpoint=\"/api/echo?x=1\"} 1'' @ [CHR 0x0A]
   @ ''# HELP api_request_duration_seconds Request duration'' @ [CHR 0x0A]
   @ ''# TYPE api_request_duration_seconds gauge'' @ [CHR 0x0A]
   @ ''api_request_duration_seconds{endpoint=\"/api/echo\"} 3'' @ [CHR 0x0A]
   @ ''api_request_duration_seconds{endpoint=\"/api/echo?x=1\"} 7'' @ [CHR 0x0A]"
  using exporter_format[of ms_ops
          "serve ms_ops Map.empty [echo_rq, echo_query_rq, echo_rq] initial_state"]
  by (simp add: eval_defs spec_count_line_def spec_duration_line_def)

text \<open>
  C10. When both dictionaries of the store are empty, the exporter's output is exactly the
  four comment lines (HELP and TYPE of \<^verbatim>\<open>api_requests_total\<close>, HELP and TYPE of
  \<^verbatim>\<open>api_request_duration_seconds\<close>), each followed by one newline, and no metric line.
\<close>

theorem exporter_empty:
  assumes "request_count s = []" and "request_duration s = []"
  shows "generate_metrics fo s =
     ''# HELP api_requests_total Total number of requests'' @ [CHR 0x0A]
   @ ''# TYPE api_requests_total counter'' @ [CHR 0x0A]
   @ ''# HELP api_request_duration_seconds Request duration'' @ [CHR 0x0A]
   @ ''# TYPE api_request_duration_seconds gauge'' @ [CHR 0x0A]"
  using assms by (simp add: generate_metrics_def)

theorem exporter_empty_witness:
  "request_count (initial_state :: int state) = []
 \<and> request_duration (initial_state :: int state) = []
 \<and> generate_metrics ms_ops initial_state =
     ''# HELP api_requests_total Total number of requests'' @ [CHR 0x0A]
   @ ''# TYPE api_requests_total counter'' @ [CHR 0x0A]
   @ ''# HELP api_request_duration_seconds Request duration'' @ [CHR 0x0A]
   @ ''# TYPE api_request_duration_seconds gauge'' @ [CHR 0x0A]"
  using exporter_empty[of "initial_state :: int state" ms_ops]
  by (simp add: initial_state_def)

section \<open>The order of effects inside one request\<close>











section \<open>The metrics store over a sequence of requests\<close>

lemma count_serve_same:
  assumes "\<forall>rq \<in> set rqs. path rq = p" "startswith p ''/api/echo''"
    "request_count s = [(p, c)]"
  shows "request_count (serve fo env rqs s) = [(p, c + int (length rqs))]"
  using assms
  by (induction rqs arbitrary: s c) (auto simp: count_handle dict_get_def)

lemma count_serve_distinct:
  assumes "\<forall>rq \<in> set rqs. startswith (path rq) ''/api/echo''" "distinct (map path rqs)"
     "set (keys (request_count s)) \<inter> set (map path rqs) = {}"
  shows "request_count (serve fo env rqs s) = request_count s @ map (\<lambda>rq. (path rq, 1)) rqs"
  using assms
proof (induction rqs arbitrary: s)
  case Nil
  then show ?case by simp
next
  case (Cons rq rqs)
  let ?s' = "handle fo env rq s"
  have absent: "path rq \<notin> set (keys (request_count s))"
    using Cons.prems(3) by auto
  have echo: "startswith (path rq) ''/api/echo''"
    using Cons.prems(1) by simp
  have step: "request_count ?s' = request_count s @ [(path rq, 1)]"
    using absent echo by (simp add: count_handle dict_setitem_absent dict_get_absent)
  have disj: "set (keys (request_count ?s')) \<inter> set (map path rqs) = {}"
    using Cons.prems(2,3) by (auto simp: step keys_def)
  have "request_count (serve fo env rqs ?s') =
          request_count ?s' @ map (\<lambda>rq. (path rq, 1)) rqs"
    using Cons.IH[of ?s'] Cons.prems(1,2) disj by simp
  then show ?case by (simp add: step)
qed

text \<open>
  C5. Starting from the empty store, N echo requests (N at least 1) to one and the same
  path leave exactly one entry in the counts, that path with the value N; N echo requests
  with pairwise distinct paths leave N entries, one for each path, each with the value 1.
\<close>

theorem echo_counts:
  "(rqs \<noteq> [] \<and> startswith p ''/api/echo'' \<and> (\<forall>rq \<in> set rqs. path rq = p) \<longrightarrow>
      request_count (serve fo env rqs initial_state) = [(p, int (length rqs))])
 \<and> (distinct (map path rqs) \<and> (\<forall>rq \<in> set rqs. startswith (path rq) ''/api/echo'') \<longrightarrow>
      request_count (serve fo env rqs initial_state) = map (\<lambda>rq. (path rq, 1)) rqs)"
proof (intro conjI impI)
  assume h: "rqs \<noteq> [] \<and> startswith p ''/api/echo'' \<and> (\<forall>rq \<in> set rqs. path rq = p)"
  then obtain rq rest where rqs: "rqs = rq # rest" by (cases rqs) auto
  have first: "request_count (handle fo env rq initial_state) = [(p, 1)]"
    using h rqs by (simp add: count_handle initial_state_def dict_get_def)
  have "request_count (serve fo env rest (handle fo env rq initial_state)) =
          [(p, 1 + int (length rest))]"
    using h rqs first by (intro count_serve_same) auto
  then show "request_count (serve fo env rqs initial_state) = [(p, int (length rqs))]"
    by (simp add: rqs)
next
  assume h: "distinct (map path rqs) \<and> (\<forall>rq \<in> set rqs. startswith (path rq) ''/api/echo'')"
  have "request_count (serve fo env rqs initial_state) =
          request_count (initial_state :: 'a state) @ map (\<lambda>rq. (path rq, 1)) rqs"
    using h by (intro count_serve_distinct) (auto simp: initial_state_def keys_def)
  then show "request_count (serve fo env rqs initial_state) = map (\<lambda>rq. (path rq, 1)) rqs"
    by (simp add: initial_state_def)
qed

theorem echo_counts_witness:
  "request_count (serve ms_ops Map.empty [echo_rq, echo_rq, echo_rq] initial_state)
     = [(''/api/echo'', 3)]
 \<and> request_count (serve ms_ops Map.empty [echo_rq, echo_query_rq] initial_state)
     = [(''/api/echo'', 1), (''/api/echo?x=1'', 1)]"
  using echo_counts[of "[echo_rq, echo_rq, echo_rq]" "''/api/echo''" ms_ops Map.empty]
        echo_counts[of "[echo_rq, echo_query_rq]" "''/api/echo''" ms_ops Map.empty]
  by (simp add: echo_rq_def echo_query_rq_def startswith_def)

lemma count_handle_mono:
  assumes "map_of (request_count s) p = Some c"
  shows "\<exists>c'. map_of (request_count (handle fo env rq s)) p = Some c' \<and> c \<le> c'"
  using assms by (auto simp: count_handle map_of_dict_setitem dict_get_def)

text \<open>
  C8. For every key and every sequence of handled requests, the count of the key never
  decreases: an entry of the counts stays an entry, with a value at least as large.
\<close>

theorem counts_monotone:
  assumes "map_of (request_count s) p = Some c"
  shows "\<exists>c'. map_of (request_count (serve fo env rqs s)) p = Some c' \<and> c \<le> c'"
  using assms
proof (induction rqs arbitrary: s c)
  case Nil
  then show ?case by simp
next
  case (Cons rq rqs)
  obtain c1 where c1: "map_of (request_count (handle fo env rq s)) p = Some c1" "c \<le> c1"
    using count_handle_mono[OF Cons.prems] by blast
  obtain c2 where
    "map_of (request_count (serve fo env rqs (handle fo env rq s))) p = Some c2" "c1 \<le> c2"
    using Cons.IH[OF c1(1)] by blast
  with c1(2) show ?case by auto
qed

theorem counts_monotone_witness:
  "map_of (request_count (handle ms_ops Map.empty echo_rq initial_state)) ''/api/echo'' = Some 1
 \<and> map_of (request_count (serve ms_ops Map.empty [health_rq, echo_rq, other_rq]
        (handle ms_ops Map.empty echo_rq initial_state))) ''/api/echo'' = Some 2"
  using counts_monotone[of "handle ms_ops Map.empty echo_rq initial_state" "''/api/echo''" 1
          ms_ops Map.empty "[health_rq, echo_rq, other_rq]"]
  by (simp add: eval_defs)

lemma store_inv_handle:
  assumes "store_inv s"
  shows "store_inv (handle fo env rq s)"
proof (cases "startswith (path rq) ''/api/echo''")
  case False
  then show ?thesis using assms by (simp add: store_inv_def count_handle duration_handle)
next
  case True
  let ?p = "path rq"
  let ?n = "dict_get (request_count s) ?p 0 + 1"
  have pos: "1 \<le> ?n"
  proof (cases "map_of (request_count s) ?p")
    case None
    then show ?thesis by (simp add: dict_get_def)
  next
    case (Some c)
    then have "(?p, c) \<in> set (request_count s)" by (rule map_of_SomeD)
    then have "1 \<le> c" using assms by (auto simp: store_inv_def)
    then show ?thesis using Some by (simp add: dict_get_def)
  qed
  have vals: "\<forall>(k, c) \<in> set (dict_setitem (request_count s) ?p ?n). 1 \<le> c"
    using set_dict_setitem[of "request_count s" ?p ?n] pos assms
    by (fastforce simp: store_inv_def)
  have ks: "keys (dict_setitem (request_count s) ?p ?n) =
            keys (dict_setitem (request_duration s) ?p d)" for d
    using assms by (simp add: keys_dict_setitem store_inv_def)
  show ?thesis using True vals ks by (simp add: store_inv_def count_handle duration_handle)
qed

lemma store_inv_serve: "store_inv s \<Longrightarrow> store_inv (serve fo env rqs s)"
  by (induction rqs arbitrary: s) (auto intro: store_inv_handle)

text \<open>
  C9. In every state of the store that the server can reach from the empty store, the
  counts and the last durations have the same keys, and every count is at least 1.
\<close>

theorem reachable_store_invariant:
  "set (keys (request_count (serve fo env rqs initial_state)))
      = set (keys (request_duration (serve fo env rqs initial_state)))
   \<and> (\<forall>(k, c) \<in> set (request_count (serve fo env rqs initial_state)). 1 \<le> c)"
proof -
  have "store_inv (initial_state :: 'a state)"
    by (simp add: store_inv_def initial_state_def keys_def)
  then have "store_inv (serve fo env rqs initial_state)" by (rule store_inv_serve)
  then show ?thesis by (simp add: store_inv_def)
qed

theorem reachable_store_invariant_witness:
  "set (keys (request_count
          (serve ms_ops Map.empty [echo_rq, echo_query_rq, echo_rq] initial_state)))
     = {''/api/echo'', ''/api/echo?x=1''}
 \<and> set (keys (request_duration
          (serve ms_ops Map.empty [echo_rq, echo_query_rq, echo_rq] initial_state)))
     = {''/api/echo'', ''/api/echo?x=1''}
 \<and> request_count (serve ms_ops Map.empty [echo_rq, echo_query_rq, echo_rq] initial_state)
     = [(''/api/echo'', 2), (''/api/echo?x=1'', 1)]"
  using reachable_store_invariant[of ms_ops Map.empty "[echo_rq, echo_query_rq, echo_rq]"]
  by (simp add: eval_defs)

end
